theory Spec2Isabelle
  imports Main
begin

section \<open>The settings panel of src/src/Settings.tsx\<close>

text \<open>
  The component keeps three pieces of React state (\<open>activeSection\<close>, \<open>settings\<close>,
  \<open>appDirectory\<close>), reads the theme of the theme provider, and talks to four
  collaborators: the directory picker (\<open>dialog.open\<close>), the host command
  \<open>open_folder\<close> (\<open>invoke\<close>), the settings database (\<open>loadSettings\<close>,
  \<open>saveSettings\<close>) and the toast channel. A handler is modelled as a function from
  the state before the user action to the state after it. What a collaborator answers is
  an argument of the handler: a thrown exception is \<open>Inl\<close>, a normal return is
  \<open>Inr\<close>. What the handler does to the database, the console and the toast channel
  is appended, in program order, to the field \<open>effects\<close>. The calls
  \<open>console.error\<close>, \<open>toast\<close> and the React setters are taken to return.
\<close>

subsection \<open>Data\<close>

text \<open>The error kinds named by the specification; any other thrown value is a \<open>HostError\<close>.\<close>

datatype error =
  StorageUnavailable | ValidationError | PathNotFound | PermissionDenied | HostError string

text \<open>
  How a call of a handler ends: it returns, or an exception leaves it. A handler yields
  this together with the state it leaves behind.
\<close>

datatype completion = Returned | Threw error

text \<open>The type \<open>"light" | "dark" | "system"\<close> of line 75.\<close>

datatype theme = Light | Dark | System

fun theme_string :: "theme \<Rightarrow> string" where
  "theme_string Light = ''light''"
| "theme_string Dark = ''dark''"
| "theme_string System = ''system''"

text \<open>The type of the \<open>settings\<close> state, line 24.\<close>

record SettingsRecord =
  os :: string
  firstStartup :: string
  collectionPath :: string

text \<open>
  What \<open>dialog.open\<close> resolves to: \<open>null\<close>, one path, or an array of paths.
\<close>

datatype dialog_result = DNull | DPath string | DPaths "string list"

text \<open>
  JavaScript truthiness of such a value: \<open>null\<close> and the empty string are falsy,
  every array is truthy.
\<close>

fun truthy :: "dialog_result \<Rightarrow> bool" where
  "truthy DNull = False"
| "truthy (DPath p) = (p \<noteq> [])"
| "truthy (DPaths ps) = True"

text \<open>The test \<open>typeof selected === "string"\<close>.\<close>

fun is_string :: "dialog_result \<Rightarrow> bool" where
  "is_string (DPath p) = True"
| "is_string DNull = False"
| "is_string (DPaths ps) = False"

text \<open>A toast without a \<open>variant\<close> field has the default variant.\<close>

datatype variant = Default | Destructive

datatype effect =
  SaveSettings SettingsRecord
| ConsoleError string error
| Toast string string variant

text \<open>
  The state of the panel, with the state of the settings database (\<open>db\<close>) beside it.
  The database module is not part of the component, so its state is a type parameter.
\<close>

record 'db state =
  theme :: theme
  activeSection :: string
  settings :: "SettingsRecord option"
  appDirectory :: string
  effects :: "effect list"
  db :: 'db

text \<open>The initial values of the \<open>useState\<close> calls, lines 23 to 25.\<close>

definition initial :: "theme \<Rightarrow> 'db \<Rightarrow> 'db state" where
  "initial th d =
     \<lparr>theme = th, activeSection = ''Themes'', settings = None, appDirectory = [],
      effects = [], db = d\<rparr>"

subsection \<open>Effects\<close>

definition toast :: "string \<Rightarrow> string \<Rightarrow> variant \<Rightarrow> 'db state \<Rightarrow> 'db state" where
  "toast title description v st = st\<lparr>effects := effects st @ [Toast title description v]\<rparr>"

definition console_error :: "string \<Rightarrow> error \<Rightarrow> 'db state \<Rightarrow> 'db state" where
  "console_error msg e st = st\<lparr>effects := effects st @ [ConsoleError msg e]\<rparr>"

text \<open>
  Modelled from the spec: \<open>setTheme\<close> of the theme provider
  (\<open>@/components/theme-provider\<close> is not among the sources). Section 9 of the
  specification describes the theme as one process-wide value with an explicit update
  function; the update replaces that value and touches nothing else.
\<close>

definition setTheme :: "theme \<Rightarrow> 'db state \<Rightarrow> 'db state" where
  "setTheme v st = st\<lparr>theme := v\<rparr>"

subsection \<open>The effect on mount, lines 28 to 34\<close>

text \<open>
  \<open>loadSettings\<close> and \<open>appDataDir\<close> are awaited in turn inside an async function
  whose promise nobody observes: an exception of either ends the function there, with
  the state set so far.
\<close>

definition mount ::
  "('db \<Rightarrow> (error + SettingsRecord) \<times> 'db) \<Rightarrow> (error + string) \<Rightarrow> 'db state
     \<Rightarrow> completion \<times> 'db state"
where
  "mount loadSettings appDataDir st =
     (case loadSettings (db st) of
        (Inl e, d) \<Rightarrow> (Threw e, st\<lparr>db := d\<rparr>)
      | (Inr loadedSettings, d) \<Rightarrow>
          (let st1 = st\<lparr>db := d, settings := Some loadedSettings\<rparr>
           in case appDataDir of
                Inl e \<Rightarrow> (Threw e, st1)
              | Inr dir \<Rightarrow> (Returned, st1\<lparr>appDirectory := dir\<rparr>)))"

subsection \<open>The handlers\<close>

text \<open>
  \<open>handleFolderOpen\<close>, lines 36 to 51. The first argument is \<open>invoke\<close>: given
  the command and the path it throws or returns.
\<close>

definition handleFolderOpen ::
  "(string \<Rightarrow> string \<Rightarrow> error + unit) \<Rightarrow> string \<Rightarrow> 'db state
     \<Rightarrow> completion \<times> 'db state"
where
  "handleFolderOpen invoke path st =
     (case invoke ''open_folder'' path of
        Inr u \<Rightarrow> (Returned, toast ''Success'' ''Folder opened successfully.'' Default st)
      | Inl e \<Rightarrow>
          (Returned,
           toast ''Error'' ''Failed to open folder.'' Destructive
             (console_error ''Failed to open folder:'' e st)))"

text \<open>
  \<open>handleChangeCollectionPath\<close>, lines 53 to 73. The first argument is what
  \<open>dialog.open\<close> did, the second is \<open>saveSettings\<close>, which gets the record and the
  database, throws or returns, and leaves a database behind in both cases. Every path
  through the \<open>try\<close> and the \<open>catch\<close> block returns.
\<close>

definition catchChangeCollectionPath :: "error \<Rightarrow> 'db state \<Rightarrow> 'db state" where
  "catchChangeCollectionPath e st =
     toast ''Error'' ''Failed to update collection path.'' Destructive
       (console_error ''Failed to change collection path:'' e st)"

definition handleChangeCollectionPath ::
  "(error + dialog_result) \<Rightarrow> (SettingsRecord \<Rightarrow> 'db \<Rightarrow> (error + unit) \<times> 'db)
     \<Rightarrow> 'db state \<Rightarrow> completion \<times> 'db state"
where
  "handleChangeCollectionPath opened saveSettings st =
     (case opened of
        Inl e \<Rightarrow> (Returned, catchChangeCollectionPath e st)
      | Inr selected \<Rightarrow>
          (if truthy selected \<and> is_string selected \<and> settings st \<noteq> None then
             (case (selected, settings st) of
                (DPath p, Some s) \<Rightarrow>
                  (let updatedSettings = s\<lparr>collectionPath := p\<rparr>;
                       (saved, d) = saveSettings updatedSettings (db st);
                       st1 = st\<lparr>effects := effects st @ [SaveSettings updatedSettings], db := d\<rparr>
                   in case saved of
                        Inl e \<Rightarrow> (Returned, catchChangeCollectionPath e st1)
                      | Inr u \<Rightarrow>
                          (Returned,
                           toast ''Collection Updated''
                             ''Collection path has been changed successfully.'' Default
                             (st1\<lparr>settings := Some updatedSettings\<rparr>)))
              | _ \<Rightarrow> (Returned, st))
           else (Returned, st)))"

text \<open>\<open>handleThemeChange\<close>, lines 75 to 81.\<close>

definition handleThemeChange :: "theme \<Rightarrow> 'db state \<Rightarrow> completion \<times> 'db state" where
  "handleThemeChange v st =
     (Returned,
      toast ''Theme Updated'' (''Theme has been changed to '' @ theme_string v @ ''.'') Default
        (setTheme v st))"

text \<open>
  The values of the three \<open>SelectItem\<close>s of the theme \<open>Select\<close>, lines 93 to 95,
  in their order. Their labels are not modelled.
\<close>

definition themeItems :: "string list" where
  "themeItems = [''light'', ''dark'', ''system'']"

text \<open>
  The cast \<open>value as "light" | "dark" | "system"\<close> of line 88. It tests nothing
  when the program runs: the string reaches the handler as it is. In the model the
  argument of the handler has the declared type, so the cast is the partial map from
  strings to that type, and \<open>None\<close> is a string that the declared type does not have.
\<close>

definition theme_of_value :: "string \<Rightarrow> theme option" where
  "theme_of_value raw =
     (if raw = ''light'' then Some Light
      else if raw = ''dark'' then Some Dark
      else if raw = ''system'' then Some System
      else None)"

text \<open>
  \<open>onValueChange\<close> of the \<open>Select\<close>, line 88: choosing the item at position \<open>i\<close>
  hands the value of that item to \<open>handleThemeChange\<close> through the cast. The result
  is \<open>None\<close> if the handler would get a string outside its declared type. There is no
  item at a position past the end of the list.
\<close>

definition selectThemeItem :: "nat \<Rightarrow> 'db state \<Rightarrow> (completion \<times> 'db state) option" where
  "selectThemeItem i st =
     (if i < length themeItems then
        (case theme_of_value (themeItems ! i) of
           Some v \<Rightarrow> Some (handleThemeChange v st)
         | None \<Rightarrow> None)
      else Some (Returned, st))"

subsection \<open>The sidebar and the detail pane\<close>

datatype icon = Palette | Plug | Container | Library | Clipboard

text \<open>\<open>settingsOptions\<close>, lines 13 to 19.\<close>

definition settingsOptions :: "(string \<times> icon) list" where
  "settingsOptions =
     [(''Themes'', Palette), (''Connections'', Plug), (''Collections'', Container),
      (''About'', Library), (''Test'', Clipboard)]"

text \<open>
  Line 140 renders one button per element of \<open>settingsOptions\<close>; the button of the
  element at position \<open>i\<close> calls \<open>setActiveSection\<close> with that element's name. There
  is no button at a position past the end of the list.
\<close>

definition clickOption :: "nat \<Rightarrow> 'db state \<Rightarrow> 'db state" where
  "clickOption i st =
     (if i < length settingsOptions then st\<lparr>activeSection := fst (settingsOptions ! i)\<rparr>
      else st)"

text \<open>
  What \<open>renderSection\<close> returns, lines 83 to 133: a \<open>Section\<close> with its title, its
  description and its children, or \<open>null\<close> (\<open>None\<close>). The children are kept as the data
  they show; the date of the About pane is kept as the stored string.
\<close>

datatype child =
  ThemeSelect theme
| ChooseFolder string
| AboutInfo string string string string
| LoadingText

datatype pane = Section string string "child list"

definition renderSection :: "'db state \<Rightarrow> pane option" where
  "renderSection st =
     (if activeSection st = ''Themes'' then
        Some (Section ''Themes'' ''Customize your theme and appearance settings.''
                [ThemeSelect (theme st)])
      else if activeSection st = ''Connections'' then
        Some (Section ''Connections''
                ''Manage API integrations, database connections, and more.'' [])
      else if activeSection st = ''Collections'' then
        Some (Section ''Collections'' ''Select a folder to store your collections.''
                [ChooseFolder (case settings st of None \<Rightarrow> [] | Some s \<Rightarrow> collectionPath s)])
      else if activeSection st = ''About'' then
        Some (Section ''About'' ''Information about the app and your device.''
                [case settings st of
                   Some s \<Rightarrow> AboutInfo (os s) (firstStartup s) (collectionPath s) (appDirectory st)
                 | None \<Rightarrow> LoadingText])
      else if activeSection st = ''Test'' then
        Some (Section ''Test'' ''Basically a boilerplate for me.'' [])
      else None)"

text \<open>
  The states the panel can be in: it starts from \<open>initial\<close>, and each further state comes
  from the effect on mount, from one of the three handlers or from a click on a sidebar
  button, whatever the collaborators answer.
\<close>

inductive reachable :: "'db state \<Rightarrow> bool" where
  r_initial: "reachable (initial th d)"
| r_mount: "reachable st \<Longrightarrow> reachable (snd (mount loadSettings appDataDir st))"
| r_folder: "reachable st \<Longrightarrow> reachable (snd (handleFolderOpen invoke path st))"
| r_collection:
    "reachable st \<Longrightarrow> reachable (snd (handleChangeCollectionPath opened saveSettings st))"
| r_theme: "reachable st \<Longrightarrow> reachable (snd (handleThemeChange v st))"
| r_click: "reachable st \<Longrightarrow> reachable (clickOption i st)"

subsection \<open>The settings store\<close>

text \<open>
  Modelled from the spec: the module \<open>@/db/db\<close> with \<open>loadSettings\<close> and
  \<open>saveSettings\<close> is not among the sources. Section 4.1 of the specification gives its
  contract. The store holds at most one record and may be unavailable. \<open>load\<close> returns
  the persisted record; if none exists it creates one from the host environment (operating
  system, current time, default directory) and keeps it; it fails with
  \<open>StorageUnavailable\<close> when the medium cannot be opened. \<open>save\<close> overwrites the
  persisted record; it fails with \<open>StorageUnavailable\<close>, or with \<open>ValidationError\<close>
  for an empty \<open>collectionPath\<close> (the one invalid value the specification names), and
  a failed save writes nothing.
\<close>

record host =
  host_os :: string
  host_now :: string
  host_default_path :: string

record store =
  available :: bool
  persisted :: "SettingsRecord option"

definition load :: "host \<Rightarrow> store \<Rightarrow> (error + SettingsRecord) \<times> store" where
  "load h s =
     (if \<not> available s then (Inl StorageUnavailable, s)
      else case persisted s of
             Some r \<Rightarrow> (Inr r, s)
           | None \<Rightarrow>
               (let r = \<lparr>os = host_os h, firstStartup = host_now h,
                         collectionPath = host_default_path h\<rparr>
                in (Inr r, s\<lparr>persisted := Some r\<rparr>)))"

definition save :: "SettingsRecord \<Rightarrow> store \<Rightarrow> (error + unit) \<times> store" where
  "save r s =
     (if \<not> available s then (Inl StorageUnavailable, s)
      else if collectionPath r = [] then (Inl ValidationError, s)
      else (Inr (), s\<lparr>persisted := Some r\<rparr>))"

subsection \<open>The example of the specification\<close>

definition example_record :: SettingsRecord where
  "example_record =
     \<lparr>os = ''Linux'', firstStartup = ''2024-01-01T00:00:00Z'',
      collectionPath = ''/home/u/.app/collections''\<rparr>"

definition example_store :: store where
  "example_store = \<lparr>available = True, persisted = Some example_record\<rparr>"

definition offline_state :: "store state" where
  "offline_state =
     \<lparr>theme = System, activeSection = ''Collections'', settings = Some example_record,
      appDirectory = ''/home/u/.app'', effects = [],
      db = \<lparr>available = False, persisted = Some example_record\<rparr>\<rparr>"

text \<open>A host on which the folder to open has been deleted.\<close>

definition deleted_folder :: "string \<Rightarrow> string \<Rightarrow> error + unit" where
  "deleted_folder command path = Inl PathNotFound"

definition first_launch :: host where
  "first_launch =
     \<lparr>host_os = ''Linux'', host_now = ''2024-01-01T00:00:00Z'',
      host_default_path = ''/home/u/.app/collections''\<rparr>"

definition later_launch :: host where
  "later_launch =
     \<lparr>host_os = ''Linux'', host_now = ''2025-06-30T12:00:00Z'',
      host_default_path = ''/home/u/.app/collections''\<rparr>"

definition fresh_store :: store where
  "fresh_store = \<lparr>available = True, persisted = None\<rparr>"

definition example_state :: "store state" where
  "example_state =
     \<lparr>theme = System, activeSection = ''Collections'', settings = Some example_record,
      appDirectory = ''/home/u/.app'', effects = [], db = example_store\<rparr>"

section \<open>Properties\<close>

lemmas handler_defs =
  handleChangeCollectionPath_def catchChangeCollectionPath_def handleFolderOpen_def
  handleThemeChange_def setTheme_def toast_def console_error_def

subsection \<open>Changing the collection path\<close>

text \<open>
  C1. For every loaded settings record \<open>s\<close> and every directory path \<open>p\<close> (a
  non-empty string) that the directory picker returns as a single string, the
  collection-path change handler returns after producing the record that has the
  \<open>os\<close> and the \<open>firstStartup\<close> of \<open>s\<close> and \<open>p\<close> as its \<open>collectionPath\<close>,
  and saving it: it calls \<open>saveSettings\<close> on that record, once and before anything
  else, and the database is what the call leaves. When the call returns, the state after
  the handler is the state before it with that record as the in-memory settings, the
  database of the call, and the save and the success toast as the two new effects.
\<close>

theorem change_path_saves_updated_record:
  assumes "settings st = Some s" and "p \<noteq> []"
  shows "fst (handleChangeCollectionPath (Inr (DPath p)) saveSettings st) = Returned
       \<and> take (Suc (length (effects st)))
            (effects (snd (handleChangeCollectionPath (Inr (DPath p)) saveSettings st)))
           = effects st
             @ [SaveSettings \<lparr>os = os s, firstStartup = firstStartup s, collectionPath = p\<rparr>]
       \<and> SaveSettings \<lparr>os = os s, firstStartup = firstStartup s, collectionPath = p\<rparr>
           \<notin> set (drop (Suc (length (effects st)))
                    (effects (snd (handleChangeCollectionPath (Inr (DPath p)) saveSettings st))))
       \<and> db (snd (handleChangeCollectionPath (Inr (DPath p)) saveSettings st))
           = snd (saveSettings \<lparr>os = os s, firstStartup = firstStartup s, collectionPath = p\<rparr>
                    (db st))
       \<and> (fst (saveSettings \<lparr>os = os s, firstStartup = firstStartup s, collectionPath = p\<rparr>
                 (db st)) = Inr () \<longrightarrow>
            handleChangeCollectionPath (Inr (DPath p)) saveSettings st
              = (Returned,
                 st\<lparr>settings :=
                      Some \<lparr>os = os s, firstStartup = firstStartup s, collectionPath = p\<rparr>,
                    db :=
                      snd (saveSettings
                             \<lparr>os = os s, firstStartup = firstStartup s, collectionPath = p\<rparr>
                             (db st)),
                    effects :=
                      effects st
                      @ [SaveSettings
                           \<lparr>os = os s, firstStartup = firstStartup s, collectionPath = p\<rparr>,
                         Toast ''Collection Updated''
                           ''Collection path has been changed successfully.'' Default]\<rparr>))"
proof -
  have u: "s\<lparr>collectionPath := p\<rparr>
             = \<lparr>os = os s, firstStartup = firstStartup s, collectionPath = p\<rparr>"
    by (cases s) simp
  show ?thesis
    using assms
    by (cases "saveSettings (s\<lparr>collectionPath := p\<rparr>) (db st)")
       (auto simp: handler_defs Let_def u split: sum.splits)
qed

text \<open>
  The example of the specification: the record of a Linux host with the collection
  path \<open>/home/u/.app/collections\<close>, the user picks \<open>/home/u/Documents/col2\<close>, the store
  accepts the save.
\<close>

theorem change_path_saves_updated_record_witness:
  "settings example_state = Some example_record \<and> ''/home/u/Documents/col2'' \<noteq> []
   \<and> settings (snd (handleChangeCollectionPath (Inr (DPath ''/home/u/Documents/col2'')) save
         example_state))
       = Some \<lparr>os = ''Linux'', firstStartup = ''2024-01-01T00:00:00Z'',
               collectionPath = ''/home/u/Documents/col2''\<rparr>
   \<and> persisted (db (snd (handleChangeCollectionPath (Inr (DPath ''/home/u/Documents/col2''))
         save example_state)))
       = Some \<lparr>os = ''Linux'', firstStartup = ''2024-01-01T00:00:00Z'',
               collectionPath = ''/home/u/Documents/col2''\<rparr>"
proof -
  have h1: "settings example_state = Some example_record"
    by (simp add: example_state_def)
  have h2: "''/home/u/Documents/col2'' \<noteq> []" by simp
  show ?thesis
    using change_path_saves_updated_record
            [where st = example_state and s = example_record
               and p = "''/home/u/Documents/col2''" and saveSettings = save, OF h1 h2] h1
    by (simp add: save_def example_state_def example_store_def example_record_def)
qed

text \<open>
  C2. If \<open>saveSettings\<close> throws, the handler does not call \<open>setSettings\<close>: the
  in-memory settings, like the rest of the React state, are what they were. The
  handler returns; after the one call of \<open>saveSettings\<close> it logs the error and emits
  the destructive toast, and it does not call \<open>saveSettings\<close> again.
\<close>

theorem save_failure_keeps_settings:
  assumes "settings st = Some s" and "p \<noteq> []"
    and "fst (saveSettings (s\<lparr>collectionPath := p\<rparr>) (db st)) = Inl e"
  shows "fst (handleChangeCollectionPath (Inr (DPath p)) saveSettings st) = Returned
       \<and> settings (snd (handleChangeCollectionPath (Inr (DPath p)) saveSettings st)) = settings st
       \<and> theme (snd (handleChangeCollectionPath (Inr (DPath p)) saveSettings st)) = theme st
       \<and> activeSection (snd (handleChangeCollectionPath (Inr (DPath p)) saveSettings st))
           = activeSection st
       \<and> appDirectory (snd (handleChangeCollectionPath (Inr (DPath p)) saveSettings st))
           = appDirectory st
       \<and> effects (snd (handleChangeCollectionPath (Inr (DPath p)) saveSettings st))
           = effects st @
             [SaveSettings (s\<lparr>collectionPath := p\<rparr>),
              ConsoleError ''Failed to change collection path:'' e,
              Toast ''Error'' ''Failed to update collection path.'' Destructive]"
  using assms
  by (cases "saveSettings (s\<lparr>collectionPath := p\<rparr>) (db st)")
     (auto simp: handler_defs Let_def split: sum.splits)

theorem save_failure_keeps_settings_witness:
  "settings offline_state = Some example_record
   \<and> ''/tmp/c'' \<noteq> []
   \<and> fst (save (example_record\<lparr>collectionPath := ''/tmp/c''\<rparr>) (db offline_state))
       = Inl StorageUnavailable
   \<and> fst (handleChangeCollectionPath (Inr (DPath ''/tmp/c'')) save offline_state) = Returned
   \<and> settings (snd (handleChangeCollectionPath (Inr (DPath ''/tmp/c'')) save offline_state))
       = Some example_record
   \<and> effects (snd (handleChangeCollectionPath (Inr (DPath ''/tmp/c'')) save offline_state))
       = [SaveSettings (example_record\<lparr>collectionPath := ''/tmp/c''\<rparr>),
          ConsoleError ''Failed to change collection path:'' StorageUnavailable,
          Toast ''Error'' ''Failed to update collection path.'' Destructive]"
proof -
  have h1: "settings offline_state = Some example_record"
    by (simp add: offline_state_def)
  have h2: "''/tmp/c'' \<noteq> []" by simp
  have h3: "fst (save (example_record\<lparr>collectionPath := ''/tmp/c''\<rparr>) (db offline_state))
              = Inl StorageUnavailable"
    by (simp add: save_def offline_state_def)
  have e: "effects offline_state = []"
    by (simp add: offline_state_def)
  show ?thesis
    using save_failure_keeps_settings
            [where st = offline_state and s = example_record and p = "''/tmp/c''"
               and saveSettings = save and e = StorageUnavailable, OF h1 h2 h3] h1 h3 e
    by simp
qed

text \<open>
  C3. When the directory picker returns none (the user cancels), the collection-path
  change handler performs no save and leaves the panel, with its in-memory settings and
  the stored record, as it was.
\<close>

theorem cancel_changes_nothing:
  "handleChangeCollectionPath (Inr DNull) saveSettings st = (Returned, st)"
  by (simp add: handleChangeCollectionPath_def)



subsection \<open>Opening a folder\<close>

text \<open>
  C4. Whenever the host command \<open>open_folder\<close> fails, the folder-open handler
  returns instead of throwing, leaves the settings record (in memory and in the
  database) and the rest of the React state untouched, logs the error and emits the
  destructive toast.
\<close>

theorem folder_open_failure_caught:
  assumes "invoke ''open_folder'' path = Inl e"
  shows "fst (handleFolderOpen invoke path st) = Returned
       \<and> settings (snd (handleFolderOpen invoke path st)) = settings st
       \<and> db (snd (handleFolderOpen invoke path st)) = db st
       \<and> theme (snd (handleFolderOpen invoke path st)) = theme st
       \<and> activeSection (snd (handleFolderOpen invoke path st)) = activeSection st
       \<and> appDirectory (snd (handleFolderOpen invoke path st)) = appDirectory st
       \<and> effects (snd (handleFolderOpen invoke path st))
           = effects st @
             [ConsoleError ''Failed to open folder:'' e,
              Toast ''Error'' ''Failed to open folder.'' Destructive]"
  using assms by (simp add: handler_defs)

theorem folder_open_failure_caught_witness:
  "deleted_folder ''open_folder'' ''/home/u/.app/collections'' = Inl PathNotFound
   \<and> fst (handleFolderOpen deleted_folder ''/home/u/.app/collections'' example_state) = Returned
   \<and> settings (snd (handleFolderOpen deleted_folder ''/home/u/.app/collections'' example_state))
       = Some example_record
   \<and> db (snd (handleFolderOpen deleted_folder ''/home/u/.app/collections'' example_state))
       = example_store
   \<and> effects (snd (handleFolderOpen deleted_folder ''/home/u/.app/collections'' example_state))
       = [ConsoleError ''Failed to open folder:'' PathNotFound,
          Toast ''Error'' ''Failed to open folder.'' Destructive]"
proof -
  have h: "deleted_folder ''open_folder'' ''/home/u/.app/collections'' = Inl PathNotFound"
    by (simp add: deleted_folder_def)
  show ?thesis
    using folder_open_failure_caught
            [where invoke = deleted_folder and path = "''/home/u/.app/collections''"
               and e = PathNotFound and st = example_state, OF h] h
    by (simp add: example_state_def)
qed

subsection \<open>The store\<close>

text \<open>
  C5. Round trip on the store of section 4.1: when \<open>load\<close> returns a record, saving
  that record and loading again returns an equal record, on any state of the store, also
  at a later time and also when the save is refused.
\<close>

theorem save_load_round_trip:
  assumes "fst (load h st) = Inr r"
  shows "fst (load h' (snd (save r (snd (load h st))))) = Inr r"
  using assms
  by (auto simp: load_def save_def Let_def split: if_splits option.splits)

theorem save_load_round_trip_witness:
  "fst (load first_launch fresh_store) = Inr example_record
   \<and> fst (load later_launch (snd (save example_record (snd (load first_launch fresh_store)))))
       = Inr example_record"
proof -
  have h: "fst (load first_launch fresh_store) = Inr example_record"
    by (simp add: load_def example_record_def first_launch_def fresh_store_def Let_def)
  show ?thesis
    using save_load_round_trip [OF h, of later_launch] h by simp
qed

subsection \<open>Changing the theme\<close>

text \<open>
  C6. For each of the three theme values, the theme-change handler sets the theme to
  exactly that value and emits the toast \<open>Theme Updated\<close>, which names the value and
  has the default variant. The handler itself tests nothing; the values it gets are
  those of the items of the \<open>Select\<close>, and these are light, dark and system and no
  other: choosing any item hands the handler a value of its declared type, namely the
  value of that item.
\<close>

theorem theme_change_sets_theme:
  "theme (snd (handleThemeChange v st)) = v
   \<and> effects (snd (handleThemeChange v st))
       = effects st @
         [Toast ''Theme Updated'' (''Theme has been changed to '' @ theme_string v @ ''.'')
            Default]
   \<and> map theme_of_value themeItems = [Some Light, Some Dark, Some System]
   \<and> selectThemeItem i st \<noteq> None
   \<and> (i < length themeItems \<longrightarrow>
        (\<exists>w. theme_of_value (themeItems ! i) = Some w
           \<and> theme_string w = themeItems ! i
           \<and> selectThemeItem i st = Some (handleThemeChange w st)
           \<and> theme (snd (handleThemeChange w st)) = w))"
proof -
  have items: "map theme_of_value themeItems = [Some Light, Some Dark, Some System]"
    by (simp add: themeItems_def theme_of_value_def)
  have pick: "\<exists>w. theme_of_value (themeItems ! i) = Some w
                \<and> theme_string w = themeItems ! i
                \<and> selectThemeItem i st = Some (handleThemeChange w st)"
    if "i < length themeItems"
  proof -
    from that have "i = 0 \<or> i = 1 \<or> i = 2"
      by (auto simp: themeItems_def)
    then show ?thesis
      by (auto simp: themeItems_def theme_of_value_def selectThemeItem_def)
  qed
  have total: "selectThemeItem i st \<noteq> None"
  proof (cases "i < length themeItems")
    case True
    from pick [OF True] show ?thesis by auto
  next
    case False
    then show ?thesis by (simp add: selectThemeItem_def)
  qed
  have sets: "theme (snd (handleThemeChange w st)) = w" for w
    by (simp add: handler_defs)
  have toasts: "effects (snd (handleThemeChange v st))
       = effects st @
         [Toast ''Theme Updated'' (''Theme has been changed to '' @ theme_string v @ ''.'')
            Default]"
    by (simp add: handler_defs)
  from pick sets show ?thesis
    using items total toasts by blast
qed

text \<open>Choosing the second item of the \<open>Select\<close>, with the settings of the example loaded.\<close>

theorem theme_change_sets_theme_witness:
  "1 < length themeItems
   \<and> themeItems ! 1 = ''dark''
   \<and> selectThemeItem 1 example_state = Some (handleThemeChange Dark example_state)
   \<and> theme (snd (handleThemeChange Dark example_state)) = Dark
   \<and> effects (snd (handleThemeChange Dark example_state))
       = [Toast ''Theme Updated'' ''Theme has been changed to dark.'' Default]"
proof -
  have h: "1 < length themeItems"
    by (simp add: themeItems_def)
  have d: "theme_of_value (themeItems ! 1) = Some Dark"
    by (simp add: themeItems_def theme_of_value_def)
  have e: "effects example_state = []"
    by (simp add: example_state_def)
  show ?thesis
    using theme_change_sets_theme [of Dark example_state 1] h d e
    by (auto simp: themeItems_def)
qed

text \<open>
  C9. Changing the theme returns, calls \<open>saveSettings\<close> never (the one effect is a
  toast, and the database is untouched), leaves the in-memory settings record and the
  other React state as they were, and emits its toast of the default variant for every
  argument and every state.
\<close>

theorem theme_change_leaves_settings:
  "fst (handleThemeChange v st) = Returned
   \<and> settings (snd (handleThemeChange v st)) = settings st
   \<and> db (snd (handleThemeChange v st)) = db st
   \<and> activeSection (snd (handleThemeChange v st)) = activeSection st
   \<and> appDirectory (snd (handleThemeChange v st)) = appDirectory st
   \<and> length (effects (snd (handleThemeChange v st))) = Suc (length (effects st))
   \<and> butlast (effects (snd (handleThemeChange v st))) = effects st
   \<and> last (effects (snd (handleThemeChange v st)))
       = Toast ''Theme Updated'' (''Theme has been changed to '' @ theme_string v @ ''.'')
           Default"
  by (simp add: handler_defs)

subsection \<open>The active section\<close>

lemma option_names:
  "set (map fst settingsOptions)
     = {''Themes'', ''Connections'', ''Collections'', ''About'', ''Test''}"
  by (auto simp: settingsOptions_def)

lemma clickOption_name:
  "activeSection (clickOption i st) \<in> insert (activeSection st) (set (map fst settingsOptions))"
  by (simp add: clickOption_def)

lemma reachable_activeSection:
  "reachable st \<Longrightarrow> activeSection st \<in> set (map fst settingsOptions)"
proof (induction rule: reachable.induct)
  case (r_initial th d)
  show ?case by (simp add: initial_def settingsOptions_def)
next
  case (r_mount st loadSettings appDataDir)
  then show ?case
    by (auto simp: mount_def Let_def split: prod.splits sum.splits)
next
  case (r_folder st invoke path)
  then show ?case by (auto simp: handler_defs split: sum.splits)
next
  case (r_collection st opened saveSettings)
  then show ?case
    by (auto simp: handler_defs Let_def
          split: sum.splits prod.splits dialog_result.splits option.splits)
next
  case (r_theme st v)
  then show ?case by (simp add: handler_defs)
next
  case (r_click st i)
  then show ?case using clickOption_name [of i st] by (metis insertE)
qed

lemma renderSection_option:
  "activeSection st \<in> set (map fst settingsOptions) \<Longrightarrow> renderSection st \<noteq> None"
  unfolding option_names by (auto simp: renderSection_def)

text \<open>
  C10. The active section starts as \<open>Themes\<close>, and in every state the panel can reach
  it is the name of a sidebar option, that is one of Themes, Connections, Collections,
  About and Test; so \<open>renderSection\<close> never returns \<open>null\<close>.
\<close>

theorem active_section_is_an_option:
  assumes "reachable st"
  shows "activeSection (initial th d) = ''Themes''
       \<and> activeSection st \<in> set (map fst settingsOptions)
       \<and> activeSection st \<in> {''Themes'', ''Connections'', ''Collections'', ''About'', ''Test''}
       \<and> renderSection st \<noteq> None"
  using reachable_activeSection [OF assms] renderSection_option [of st] option_names
  by (simp add: initial_def)

theorem active_section_is_an_option_witness:
  "reachable (clickOption 3 (initial Light example_store))
   \<and> activeSection (clickOption 3 (initial Light example_store)) = ''About''
   \<and> renderSection (clickOption 3 (initial Light example_store))
       = Some (Section ''About'' ''Information about the app and your device.'' [LoadingText])
   \<and> renderSection (clickOption 3 (initial Light example_store)) \<noteq> None"
proof -
  have r: "reachable (clickOption 3 (initial Light example_store))"
    by (rule r_click) (rule r_initial)
  show ?thesis
    using active_section_is_an_option [OF r] r
    by (simp add: clickOption_def settingsOptions_def initial_def renderSection_def)
qed

end
